theory Spec2Isabelle
  imports Main "HOL-Library.Word"
begin

section \<open>JavaScript strings and truthiness\<close>

text \<open>
  A JavaScript string is a sequence of UTF-16 code units. String literals of the
  source are written \<open>js ''...''\<close>.
\<close>

type_synonym jsstring = "16 word list"

definition js :: "string \<Rightarrow> jsstring" where
  "js s = map of_char s"

text \<open>
  The code units that \<^verbatim>\<open>String.prototype.trim\<close> strips: ECMAScript WhiteSpace
  (TAB, VT, FF, SP, NBSP, ZWNBSP and the Unicode space separators) and LineTerminator
  (LF, CR, LS, PS).
\<close>

definition is_ws :: "16 word \<Rightarrow> bool" where
  "is_ws c = (c \<in> set [0x0009, 0x000A, 0x000B, 0x000C, 0x000D, 0x0020, 0x00A0, 0x1680,
      0x2000, 0x2001, 0x2002, 0x2003, 0x2004, 0x2005, 0x2006, 0x2007, 0x2008, 0x2009,
      0x200A, 0x2028, 0x2029, 0x202F, 0x205F, 0x3000, 0xFEFF])"

definition trim :: "jsstring \<Rightarrow> jsstring" where
  "trim s = rev (dropWhile is_ws (rev (dropWhile is_ws s)))"

text \<open>
  Truthiness of a value of type \<^verbatim>\<open>string | null | undefined\<close>: \<open>None\<close> stands
  for \<^verbatim>\<open>null\<close> and \<^verbatim>\<open>undefined\<close>; the empty string is falsy as well.
\<close>

definition truthy :: "jsstring option \<Rightarrow> bool" where
  "truthy v = (case v of None \<Rightarrow> False | Some s \<Rightarrow> s \<noteq> [])"

text \<open>\<^verbatim>\<open>s || null\<close> and \<^verbatim>\<open>s || d\<close> on a string \<open>s\<close>.\<close>

definition or_null :: "jsstring \<Rightarrow> jsstring option" where
  "or_null s = (if s \<noteq> [] then Some s else None)"

definition or_str :: "jsstring \<Rightarrow> jsstring \<Rightarrow> jsstring" where
  "or_str s d = (if s \<noteq> [] then s else d)"

text \<open>\<^verbatim>\<open>v || d\<close> on a value \<open>v\<close> of type \<^verbatim>\<open>string | null | undefined\<close> and a string \<open>d\<close>.\<close>

definition or_else :: "jsstring option \<Rightarrow> jsstring \<Rightarrow> jsstring" where
  "or_else v d = (case v of None \<Rightarrow> d | Some s \<Rightarrow> or_str s d)"

text \<open>\<^verbatim>\<open>`${v}`\<close> on a value \<open>v\<close> of type \<^verbatim>\<open>string | undefined\<close>.\<close>

definition interpolate :: "jsstring option \<Rightarrow> jsstring" where
  "interpolate v = (case v of None \<Rightarrow> js ''undefined'' | Some s \<Rightarrow> s)"


section \<open>Requests, responses and effects\<close>

text \<open>The object passed to \<^verbatim>\<open>JSON.stringify\<close> as the body of a create or update request.\<close>

record body_heartbeat =
  body_every :: jsstring
  body_target :: jsstring

record agent_body =
  body_name :: jsstring
  body_board_id :: jsstring
  body_heartbeat_config :: body_heartbeat
  body_identity_template :: "jsstring option"
  body_soul_template :: "jsstring option"

text \<open>
  A call of \<^verbatim>\<open>fetch\<close>: the URL and the \<^verbatim>\<open>method\<close>, \<^verbatim>\<open>headers\<close> and \<^verbatim>\<open>body\<close>
  options; a call without a method is a GET.
\<close>

record request =
  url :: jsstring
  http_method :: jsstring
  headers :: "(jsstring \<times> jsstring) list"
  body :: "agent_body option"

text \<open>
  A thrown value is an \<^verbatim>\<open>Error\<close> with its message, or anything else. A call of
  \<^verbatim>\<open>fetch\<close> rejects, or resolves to a response with its \<^verbatim>\<open>ok\<close> flag and the
  outcome of \<^verbatim>\<open>response.json()\<close>.
\<close>

datatype js_error = JsError jsstring | NonError

datatype 'a fetch_result = Rejects js_error | Resolves bool "js_error + 'a"

text \<open>A server that gives every request the same answer.\<close>

definition always :: "'a fetch_result \<Rightarrow> request \<Rightarrow> 'a fetch_result" where
  "always res req = res"

text \<open>What a handler does to the world outside the component state, in order.\<close>

datatype effect =
    PreventDefault
  | SetLocalAuthToken jsstring
  | Reload
  | Fetch request
  | RouterPush jsstring

fun fetches :: "effect list \<Rightarrow> request list" where
  "fetches [] = []"
| "fetches (Fetch req # es) = req # fetches es"
| "fetches (_ # es) = fetches es"

text \<open>\<^verbatim>\<open>err instanceof Error ? err.message : "Something went wrong."\<close>\<close>

definition caught :: "js_error \<Rightarrow> jsstring" where
  "caught err = (case err of JsError message \<Rightarrow> message | NonError \<Rightarrow> js ''Something went wrong.'')"

text \<open>\<^verbatim>\<open>token ? `Bearer ${token}` : ""\<close>\<close>

definition Authorization :: "jsstring option \<Rightarrow> jsstring" where
  "Authorization token = (case token of None \<Rightarrow> [] | Some t \<Rightarrow> if t \<noteq> [] then js ''Bearer '' @ t else [])"


section \<open>The auth provider\<close>

text \<open>
  What \<^verbatim>\<open>AuthProvider\<close> reads: the results of \<^verbatim>\<open>isLocalAuthMode()\<close> and
  \<^verbatim>\<open>getLocalAuthToken()\<close>, and the two environment variables.
\<close>

record auth_env =
  isLocalAuthMode :: bool
  getLocalAuthToken :: "jsstring option"
  NEXT_PUBLIC_CLERK_PUBLISHABLE_KEY :: "jsstring option"
  NEXT_PUBLIC_CLERK_AFTER_SIGN_OUT_URL :: "jsstring option"

text \<open>
  What it renders: the login view, the children in a fragment, or the children inside
  \<^verbatim>\<open>ClerkProvider\<close> with its two props.
\<close>

datatype 'c element =
    LocalAuthLogin
  | Fragment 'c
  | ClerkProvider "jsstring option" jsstring 'c

text \<open>
  The key check \<^verbatim>\<open>isLikelyValidClerkPublishableKey\<close> is imported from another module;
  it is the first argument.
\<close>

definition AuthProvider :: "(jsstring option \<Rightarrow> bool) \<Rightarrow> auth_env \<Rightarrow> 'c \<Rightarrow> 'c element" where
  "AuthProvider isLikelyValidClerkPublishableKey env children =
     (if isLocalAuthMode env then
        (if \<not> truthy (getLocalAuthToken env) then LocalAuthLogin else Fragment children)
      else
        let publishableKey = NEXT_PUBLIC_CLERK_PUBLISHABLE_KEY env;
            afterSignOutUrl =
              (case NEXT_PUBLIC_CLERK_AFTER_SIGN_OUT_URL env of None \<Rightarrow> js ''/'' | Some u \<Rightarrow> u)
        in if \<not> isLikelyValidClerkPublishableKey publishableKey then Fragment children
           else ClerkProvider publishableKey afterSignOutUrl children)"


section \<open>The login view\<close>

record view_state =
  error :: "jsstring option"

record login_state = view_state +
  token :: jsstring

definition LocalAuthLogin_init :: login_state where
  "LocalAuthLogin_init = \<lparr>error = None, token = []\<rparr>"

definition LocalAuthLogin_handleSubmit :: "login_state \<Rightarrow> login_state \<times> effect list" where
  "LocalAuthLogin_handleSubmit st =
     (let cleaned = trim (token st) in
      if cleaned = [] then
        (st\<lparr>error := Some (js ''Bearer token is required.'')\<rparr>, [PreventDefault])
      else
        (st\<lparr>error := None\<rparr>, [PreventDefault, SetLocalAuthToken cleaned, Reload]))"


section \<open>The agent pages: data\<close>

text \<open>
  A handler is a function from the component state it was created with to the state after
  its last update, together with the effects it had, in order. Every \<^verbatim>\<open>await\<close> of a
  \<^verbatim>\<open>fetch\<close> is answered by the second argument of the handler; a rejected promise and a
  \<^verbatim>\<open>throw\<close> inside the \<^verbatim>\<open>try\<close> go to the \<^verbatim>\<open>catch\<close> branch, which sets the error.
\<close>

record Board =
  Board_id :: jsstring
  Board_name :: jsstring
  Board_slug :: jsstring

text \<open>The \<^verbatim>\<open>Agent\<close> type of the create page: what the POST answers.\<close>

record created_agent =
  created_id :: jsstring
  created_name :: jsstring

text \<open>
  The \<^verbatim>\<open>Agent\<close> type of the edit page; an optional or nullable field is an
  \<open>option\<close>.
\<close>

record heartbeat_config =
  every :: "jsstring option"
  target :: "jsstring option"

record Agent =
  Agent_id :: jsstring
  Agent_name :: jsstring
  Agent_board_id :: "jsstring option"
  Agent_heartbeat_config :: "heartbeat_config option"
  Agent_identity_template :: "jsstring option"
  Agent_soul_template :: "jsstring option"


text \<open>
  What a page reads from outside: the API base URL, the two values of \<^verbatim>\<open>useAuth()\<close>
  and the two imported default templates. \<open>isSignedIn\<close> is taken by its truthiness;
  \<open>getToken\<close> by the outcome of \<^verbatim>\<open>await getToken()\<close>: it rejects with a thrown value
  (\<open>Inl\<close>), or resolves to a token or to \<^verbatim>\<open>null\<close> (\<open>Inr\<close>).
\<close>

record page_env =
  apiBase :: jsstring
  isSignedIn :: bool
  getToken :: "js_error + jsstring option"
  DEFAULT_IDENTITY_TEMPLATE :: jsstring
  DEFAULT_SOUL_TEMPLATE :: jsstring

text \<open>The component state both pages hold.\<close>

record form_state = view_state +
  name :: jsstring
  boards :: "Board list"
  boardId :: jsstring
  heartbeatEvery :: jsstring
  heartbeatTarget :: jsstring
  identityTemplate :: jsstring
  soulTemplate :: jsstring
  isLoading :: bool

text \<open>
  The form of either page sits inside \<^verbatim>\<open><SignedIn>\<close>, the sign-in prompt inside
  \<^verbatim>\<open><SignedOut>\<close>: the form, and with it its submit event, exists only for a signed-in
  user.
\<close>

definition form_rendered :: "'e page_env_scheme \<Rightarrow> bool" where
  "form_rendered env = isSignedIn env"

text \<open>The body both submit handlers build from the form fields.\<close>

definition submit_body :: "jsstring \<Rightarrow> 'a form_state_scheme \<Rightarrow> agent_body" where
  "submit_body trimmed st =
     \<lparr>body_name = trimmed,
      body_board_id = boardId st,
      body_heartbeat_config =
        \<lparr>body_every = or_str (trim (heartbeatEvery st)) (js ''10m''),
         body_target = heartbeatTarget st\<rparr>,
      body_identity_template = or_null (trim (identityTemplate st)),
      body_soul_template = or_null (trim (soulTemplate st))\<rparr>"


section \<open>The create page\<close>

definition NewAgentPage_init :: "'e page_env_scheme \<Rightarrow> form_state" where
  "NewAgentPage_init env =
     \<lparr>error = None, name = [], boards = [], boardId = [], heartbeatEvery = js ''10m'',
      heartbeatTarget = js ''none'', identityTemplate = DEFAULT_IDENTITY_TEMPLATE env,
      soulTemplate = DEFAULT_SOUL_TEMPLATE env, isLoading = False\<rparr>"

definition NewAgentPage_loadBoards ::
  "'e page_env_scheme \<Rightarrow> (request \<Rightarrow> Board list fetch_result) \<Rightarrow> form_state
    \<Rightarrow> form_state \<times> effect list" where
  "NewAgentPage_loadBoards env fetch st =
     (if \<not> isSignedIn env then (st, [])
      else
        case getToken env of
          Inl err \<Rightarrow> (st\<lparr>error := Some (caught err)\<rparr>, [])
        | Inr tok \<Rightarrow>
            let req = \<lparr>url = apiBase env @ js ''/api/v1/boards'', http_method = js ''GET'',
                       headers = [(js ''Authorization'', Authorization tok)], body = None\<rparr>
            in case fetch req of
                 Rejects err \<Rightarrow> (st\<lparr>error := Some (caught err)\<rparr>, [Fetch req])
               | Resolves ok json \<Rightarrow>
                   if \<not> ok then
                     (st\<lparr>error := Some (js ''Unable to load boards.'')\<rparr>, [Fetch req])
                   else (case json of
                           Inl err \<Rightarrow> (st\<lparr>error := Some (caught err)\<rparr>, [Fetch req])
                         | Inr data \<Rightarrow>
                             (case data of
                                [] \<Rightarrow> (st\<lparr>boards := data\<rparr>, [Fetch req])
                              | first # _ \<Rightarrow>
                                  if boardId st = [] then
                                    (st\<lparr>boards := data, boardId := Board_id first\<rparr>,
                                     [Fetch req])
                                  else (st\<lparr>boards := data\<rparr>, [Fetch req]))))"

definition NewAgentPage_handleSubmit ::
  "'e page_env_scheme \<Rightarrow> (request \<Rightarrow> created_agent fetch_result) \<Rightarrow> form_state
    \<Rightarrow> form_state \<times> effect list" where
  "NewAgentPage_handleSubmit env fetch st =
     (if \<not> isSignedIn env then (st, [PreventDefault])
      else
        let trimmed = trim (name st) in
        if trimmed = [] then
          (st\<lparr>error := Some (js ''Agent name is required.'')\<rparr>, [PreventDefault])
        else if boardId st = [] then
          (st\<lparr>error := Some (js ''Select a board before creating an agent.'')\<rparr>,
           [PreventDefault])
        else
          let st1 = st\<lparr>isLoading := True, error := None\<rparr> in
          case getToken env of
            Inl err \<Rightarrow>
              (st1\<lparr>error := Some (caught err), isLoading := False\<rparr>, [PreventDefault])
          | Inr tok \<Rightarrow>
              let req = \<lparr>url = apiBase env @ js ''/api/v1/agents'', http_method = js ''POST'',
                         headers = [(js ''Content-Type'', js ''application/json''),
                                    (js ''Authorization'', Authorization tok)],
                         body = Some (submit_body trimmed st)\<rparr>
              in case fetch req of
                   Rejects err \<Rightarrow>
                     (st1\<lparr>error := Some (caught err), isLoading := False\<rparr>,
                      [PreventDefault, Fetch req])
                 | Resolves ok json \<Rightarrow>
                     if \<not> ok then
                       (st1\<lparr>error := Some (js ''Unable to create agent.''),
                            isLoading := False\<rparr>,
                        [PreventDefault, Fetch req])
                     else (case json of
                             Inl err \<Rightarrow>
                               (st1\<lparr>error := Some (caught err), isLoading := False\<rparr>,
                                [PreventDefault, Fetch req])
                           | Inr created \<Rightarrow>
                               (st1\<lparr>isLoading := False\<rparr>,
                                [PreventDefault, Fetch req,
                                 RouterPush (js ''/agents/'' @ created_id created)])))"


section \<open>The edit page\<close>

text \<open>The route parameter \<^verbatim>\<open>params?.agentId\<close>: absent, a string or an array of strings.\<close>

datatype param = Undefined | Single jsstring | Multiple "jsstring list"

record edit_env = page_env +
  agentIdParam :: param

definition agentId :: "'e edit_env_scheme \<Rightarrow> jsstring option" where
  "agentId env =
     (case agentIdParam env of
        Multiple xs \<Rightarrow> (case xs of [] \<Rightarrow> None | x # _ \<Rightarrow> Some x)
      | Single s \<Rightarrow> Some s
      | Undefined \<Rightarrow> None)"

record edit_state = form_state +
  agent :: "Agent option"

definition EditAgentPage_init :: "'e page_env_scheme \<Rightarrow> edit_state" where
  "EditAgentPage_init env =
     \<lparr>error = None, name = [], boards = [], boardId = [], heartbeatEvery = js ''10m'',
      heartbeatTarget = js ''none'', identityTemplate = DEFAULT_IDENTITY_TEMPLATE env,
      soulTemplate = DEFAULT_SOUL_TEMPLATE env, isLoading = False, agent = None\<rparr>"

definition EditAgentPage_loadBoards ::
  "'e edit_env_scheme \<Rightarrow> (request \<Rightarrow> Board list fetch_result) \<Rightarrow> edit_state
    \<Rightarrow> edit_state \<times> effect list" where
  "EditAgentPage_loadBoards env fetch st =
     (if \<not> isSignedIn env then (st, [])
      else
        case getToken env of
          Inl err \<Rightarrow> (st\<lparr>error := Some (caught err)\<rparr>, [])
        | Inr tok \<Rightarrow>
            let req = \<lparr>url = apiBase env @ js ''/api/v1/boards'', http_method = js ''GET'',
                       headers = [(js ''Authorization'', Authorization tok)], body = None\<rparr>
            in case fetch req of
                 Rejects err \<Rightarrow> (st\<lparr>error := Some (caught err)\<rparr>, [Fetch req])
               | Resolves ok json \<Rightarrow>
                   if \<not> ok then
                     (st\<lparr>error := Some (js ''Unable to load boards.'')\<rparr>, [Fetch req])
                   else (case json of
                           Inl err \<Rightarrow> (st\<lparr>error := Some (caught err)\<rparr>, [Fetch req])
                         | Inr data \<Rightarrow> (st\<lparr>boards := data\<rparr>, [Fetch req])))"

text \<open>The assignments of \<^verbatim>\<open>loadAgent\<close> after the record has been parsed.\<close>

definition seed :: "'e page_env_scheme \<Rightarrow> Agent \<Rightarrow> edit_state \<Rightarrow> edit_state" where
  "seed env data st =
     (let st2 = st\<lparr>agent := Some data, name := Agent_name data\<rparr>;
          st3 = (case Agent_board_id data of
                   None \<Rightarrow> st2
                 | Some b \<Rightarrow> if b \<noteq> [] then st2\<lparr>boardId := b\<rparr> else st2);
          st4 = (case Option.bind (Agent_heartbeat_config data) every of
                   None \<Rightarrow> st3
                 | Some e \<Rightarrow> if e \<noteq> [] then st3\<lparr>heartbeatEvery := e\<rparr> else st3);
          st5 = (case Option.bind (Agent_heartbeat_config data) target of
                   None \<Rightarrow> st4
                 | Some t \<Rightarrow> if t \<noteq> [] then st4\<lparr>heartbeatTarget := t\<rparr> else st4)
      in st5\<lparr>identityTemplate :=
                or_else (map_option trim (Agent_identity_template data))
                  (DEFAULT_IDENTITY_TEMPLATE env),
              soulTemplate :=
                or_else (map_option trim (Agent_soul_template data))
                  (DEFAULT_SOUL_TEMPLATE env)\<rparr>)"

definition EditAgentPage_loadAgent ::
  "'e edit_env_scheme \<Rightarrow> (request \<Rightarrow> Agent fetch_result) \<Rightarrow> edit_state
    \<Rightarrow> edit_state \<times> effect list" where
  "EditAgentPage_loadAgent env fetch st =
     (if \<not> isSignedIn env \<or> \<not> truthy (agentId env) then (st, [])
      else
        let st1 = st\<lparr>isLoading := True, error := None\<rparr> in
        case getToken env of
          Inl err \<Rightarrow> (st1\<lparr>error := Some (caught err), isLoading := False\<rparr>, [])
        | Inr tok \<Rightarrow>
            let req = \<lparr>url = apiBase env @ js ''/api/v1/agents/'' @ interpolate (agentId env),
                       http_method = js ''GET'',
                       headers = [(js ''Authorization'', Authorization tok)], body = None\<rparr>
            in case fetch req of
                 Rejects err \<Rightarrow>
                   (st1\<lparr>error := Some (caught err), isLoading := False\<rparr>, [Fetch req])
               | Resolves ok json \<Rightarrow>
                   if \<not> ok then
                     (st1\<lparr>error := Some (js ''Unable to load agent.''), isLoading := False\<rparr>,
                      [Fetch req])
                   else (case json of
                           Inl err \<Rightarrow>
                             (st1\<lparr>error := Some (caught err), isLoading := False\<rparr>,
                              [Fetch req])
                         | Inr data \<Rightarrow>
                             ((seed env data st1)\<lparr>isLoading := False\<rparr>, [Fetch req])))"

definition EditAgentPage_handleSubmit ::
  "'e edit_env_scheme \<Rightarrow> (request \<Rightarrow> 'j fetch_result) \<Rightarrow> edit_state
    \<Rightarrow> edit_state \<times> effect list" where
  "EditAgentPage_handleSubmit env fetch st =
     (if \<not> isSignedIn env \<or> \<not> truthy (agentId env) then (st, [PreventDefault])
      else
        let trimmed = trim (name st) in
        if trimmed = [] then
          (st\<lparr>error := Some (js ''Agent name is required.'')\<rparr>, [PreventDefault])
        else if boardId st = [] then
          (st\<lparr>error := Some (js ''Select a board before saving.'')\<rparr>, [PreventDefault])
        else
          let st1 = st\<lparr>isLoading := True, error := None\<rparr> in
          case getToken env of
            Inl err \<Rightarrow>
              (st1\<lparr>error := Some (caught err), isLoading := False\<rparr>, [PreventDefault])
          | Inr tok \<Rightarrow>
              let req = \<lparr>url = apiBase env @ js ''/api/v1/agents/'' @ interpolate (agentId env),
                         http_method = js ''PATCH'',
                         headers = [(js ''Content-Type'', js ''application/json''),
                                    (js ''Authorization'', Authorization tok)],
                         body = Some (submit_body trimmed st)\<rparr>
              in case fetch req of
                   Rejects err \<Rightarrow>
                     (st1\<lparr>error := Some (caught err), isLoading := False\<rparr>,
                      [PreventDefault, Fetch req])
                 | Resolves ok json \<Rightarrow>
                     if \<not> ok then
                       (st1\<lparr>error := Some (js ''Unable to update agent.''),
                            isLoading := False\<rparr>,
                        [PreventDefault, Fetch req])
                     else
                       (st1\<lparr>isLoading := False\<rparr>,
                        [PreventDefault, Fetch req,
                         RouterPush (js ''/agents/'' @ interpolate (agentId env))]))"


section \<open>Example inputs\<close>

text \<open>
  A signed-in user with the token \<^verbatim>\<open>tok\<close>, the edit route of agent \<^verbatim>\<open>a1\<close>, the
  create form after the user has typed a name, picked a board and blanked the interval
  and the soul template, the edit form after similar input, and an agent record as the
  server sends it.
\<close>

definition example_env :: page_env where
  "example_env =
     \<lparr>apiBase = js ''http://api'', isSignedIn = True, getToken = Inr (Some (js ''tok'')),
      DEFAULT_IDENTITY_TEMPLATE = js ''I'', DEFAULT_SOUL_TEMPLATE = js ''S''\<rparr>"

definition example_edit_env :: edit_env where
  "example_edit_env =
     \<lparr>apiBase = js ''http://api'', isSignedIn = True, getToken = Inr (Some (js ''tok'')),
      DEFAULT_IDENTITY_TEMPLATE = js ''I'', DEFAULT_SOUL_TEMPLATE = js ''S'',
      agentIdParam = Single (js ''a1'')\<rparr>"

definition example_form :: form_state where
  "example_form =
     (NewAgentPage_init example_env)
       \<lparr>name := js '' Deploy bot '', boardId := js ''b1'', heartbeatEvery := js '' '',
        soulTemplate := js '' ''\<rparr>"

definition example_edit_form :: edit_state where
  "example_edit_form =
     (EditAgentPage_init example_edit_env)
       \<lparr>name := js ''Deploy bot'', boardId := js ''b1'', identityTemplate := js '' ''\<rparr>"

definition example_agent :: Agent where
  "example_agent =
     \<lparr>Agent_id = js ''a1'', Agent_name = js ''Deploy bot'', Agent_board_id = Some (js ''b1''),
      Agent_heartbeat_config = Some \<lparr>every = Some (js ''30m''), target = Some (js ''last'')\<rparr>,
      Agent_identity_template = Some (js '' ''), Agent_soul_template = None\<rparr>"


section \<open>Helper lemmas\<close>

lemma trim_Nil_iff: "trim s = [] \<longleftrightarrow> (\<forall>c\<in>set s. is_ws c)"
proof -
  have "trim s = [] \<longleftrightarrow> (\<forall>c\<in>set (dropWhile is_ws s). is_ws c)"
    by (simp add: trim_def)
  also have "\<dots> \<longleftrightarrow> dropWhile is_ws s = []"
  proof
    assume all: "\<forall>c\<in>set (dropWhile is_ws s). is_ws c"
    show "dropWhile is_ws s = []"
    proof (rule ccontr)
      assume ne: "dropWhile is_ws s \<noteq> []"
      then have "\<not> is_ws (hd (dropWhile is_ws s))" by (rule hd_dropWhile)
      moreover from ne have "hd (dropWhile is_ws s) \<in> set (dropWhile is_ws s)" by simp
      ultimately show False using all by blast
    qed
  next
    assume e: "dropWhile is_ws s = []"
    show "\<forall>c\<in>set (dropWhile is_ws s). is_ws c" unfolding e by simp
  qed
  also have "\<dots> \<longleftrightarrow> (\<forall>c\<in>set s. is_ws c)"
    by (rule dropWhile_eq_Nil_conv)
  finally show ?thesis .
qed

text \<open>
  Each handler issues at most one request, only after the token provider has resolved,
  and it is this one.
\<close>

lemma NewAgentPage_loadBoards_fetches:
  "req \<in> set (fetches (snd (NewAgentPage_loadBoards env fetch st))) \<Longrightarrow>
     \<exists>tok. getToken env = Inr tok \<and>
       req = \<lparr>url = apiBase env @ js ''/api/v1/boards'', http_method = js ''GET'',
              headers = [(js ''Authorization'', Authorization tok)], body = None\<rparr>"
  by (auto simp: NewAgentPage_loadBoards_def Let_def
      split: if_splits fetch_result.splits sum.splits list.splits)

lemma NewAgentPage_handleSubmit_fetches:
  "req \<in> set (fetches (snd (NewAgentPage_handleSubmit env fetch st))) \<Longrightarrow>
     \<exists>tok. getToken env = Inr tok \<and>
       req = \<lparr>url = apiBase env @ js ''/api/v1/agents'', http_method = js ''POST'',
              headers = [(js ''Content-Type'', js ''application/json''),
                         (js ''Authorization'', Authorization tok)],
              body = Some (submit_body (trim (name st)) st)\<rparr>"
  by (auto simp: NewAgentPage_handleSubmit_def Let_def
      split: if_splits fetch_result.splits sum.splits)

lemma EditAgentPage_loadBoards_fetches:
  "req \<in> set (fetches (snd (EditAgentPage_loadBoards env fetch st))) \<Longrightarrow>
     \<exists>tok. getToken env = Inr tok \<and>
       req = \<lparr>url = apiBase env @ js ''/api/v1/boards'', http_method = js ''GET'',
              headers = [(js ''Authorization'', Authorization tok)], body = None\<rparr>"
  by (auto simp: EditAgentPage_loadBoards_def Let_def
      split: if_splits fetch_result.splits sum.splits)

lemma EditAgentPage_loadAgent_fetches:
  "req \<in> set (fetches (snd (EditAgentPage_loadAgent env fetch st))) \<Longrightarrow>
     \<exists>tok. getToken env = Inr tok \<and>
       req = \<lparr>url = apiBase env @ js ''/api/v1/agents/'' @ interpolate (agentId env),
              http_method = js ''GET'',
              headers = [(js ''Authorization'', Authorization tok)], body = None\<rparr>"
  by (auto simp: EditAgentPage_loadAgent_def Let_def
      split: if_splits fetch_result.splits sum.splits)

lemma EditAgentPage_handleSubmit_fetches:
  "req \<in> set (fetches (snd (EditAgentPage_handleSubmit env fetch st))) \<Longrightarrow>
     \<exists>tok. getToken env = Inr tok \<and>
       req = \<lparr>url = apiBase env @ js ''/api/v1/agents/'' @ interpolate (agentId env),
              http_method = js ''PATCH'',
              headers = [(js ''Content-Type'', js ''application/json''),
                         (js ''Authorization'', Authorization tok)],
              body = Some (submit_body (trim (name st)) st)\<rparr>"
  by (auto simp: EditAgentPage_handleSubmit_def Let_def
      split: if_splits fetch_result.splits sum.splits)


section \<open>The auth provider and the login view: properties\<close>

text \<open>
  C1. In local-auth mode the provider renders the login view when
  \<^verbatim>\<open>getLocalAuthToken()\<close> gives no token (the empty string counts as none), and the
  children in a bare fragment when it gives a token. The result is the same for every
  token and for every key check: nothing is asked of the backend.
\<close>

theorem AuthProvider_local_mode:
  assumes "isLocalAuthMode env"
  shows "(getLocalAuthToken env = None \<longrightarrow> AuthProvider valid env children = LocalAuthLogin)
       \<and> (getLocalAuthToken env = Some [] \<longrightarrow> AuthProvider valid env children = LocalAuthLogin)
       \<and> (\<forall>t. getLocalAuthToken env = Some t \<and> t \<noteq> []
              \<longrightarrow> AuthProvider valid env children = Fragment children)"
  using assms by (simp add: AuthProvider_def truthy_def)

theorem AuthProvider_local_mode_witness:
  "isLocalAuthMode \<lparr>isLocalAuthMode = True, getLocalAuthToken = None,
      NEXT_PUBLIC_CLERK_PUBLISHABLE_KEY = None, NEXT_PUBLIC_CLERK_AFTER_SIGN_OUT_URL = None\<rparr>
   \<and> AuthProvider truthy \<lparr>isLocalAuthMode = True, getLocalAuthToken = None,
      NEXT_PUBLIC_CLERK_PUBLISHABLE_KEY = None, NEXT_PUBLIC_CLERK_AFTER_SIGN_OUT_URL = None\<rparr>
      ''app'' = LocalAuthLogin
   \<and> AuthProvider truthy \<lparr>isLocalAuthMode = True, getLocalAuthToken = Some (js ''abc123''),
      NEXT_PUBLIC_CLERK_PUBLISHABLE_KEY = None, NEXT_PUBLIC_CLERK_AFTER_SIGN_OUT_URL = None\<rparr>
      ''app'' = Fragment ''app''"
  using AuthProvider_local_mode [of "\<lparr>isLocalAuthMode = True, getLocalAuthToken = None,
      NEXT_PUBLIC_CLERK_PUBLISHABLE_KEY = None, NEXT_PUBLIC_CLERK_AFTER_SIGN_OUT_URL = None\<rparr>"
      truthy "''app''"]
    AuthProvider_local_mode [of "\<lparr>isLocalAuthMode = True, getLocalAuthToken = Some (js ''abc123''),
      NEXT_PUBLIC_CLERK_PUBLISHABLE_KEY = None, NEXT_PUBLIC_CLERK_AFTER_SIGN_OUT_URL = None\<rparr>"
      truthy "''app''"]
  by (simp add: js_def)

text \<open>
  C2. Outside local-auth mode the provider renders the children in a bare fragment
  whenever the key check rejects the configured key, whatever the key is (absent and
  empty keys included), and inside \<^verbatim>\<open>ClerkProvider\<close> whenever the check accepts it.
  Either way the result is an element: the function has no failing branch.
\<close>

theorem AuthProvider_hosted_mode:
  assumes "\<not> isLocalAuthMode env"
  shows "(\<not> valid (NEXT_PUBLIC_CLERK_PUBLISHABLE_KEY env)
            \<longrightarrow> AuthProvider valid env children = Fragment children)
       \<and> (valid (NEXT_PUBLIC_CLERK_PUBLISHABLE_KEY env)
            \<longrightarrow> AuthProvider valid env children =
                ClerkProvider (NEXT_PUBLIC_CLERK_PUBLISHABLE_KEY env)
                  (case NEXT_PUBLIC_CLERK_AFTER_SIGN_OUT_URL env of None \<Rightarrow> js ''/'' | Some u \<Rightarrow> u)
                  children)"
  using assms by (simp add: AuthProvider_def)

theorem AuthProvider_hosted_mode_witness:
  "\<not> isLocalAuthMode \<lparr>isLocalAuthMode = False, getLocalAuthToken = None,
      NEXT_PUBLIC_CLERK_PUBLISHABLE_KEY = Some [], NEXT_PUBLIC_CLERK_AFTER_SIGN_OUT_URL = None\<rparr>
   \<and> \<not> truthy (Some [])
   \<and> AuthProvider truthy \<lparr>isLocalAuthMode = False, getLocalAuthToken = None,
      NEXT_PUBLIC_CLERK_PUBLISHABLE_KEY = Some [], NEXT_PUBLIC_CLERK_AFTER_SIGN_OUT_URL = None\<rparr>
      ''app'' = Fragment ''app''
   \<and> \<not> truthy None
   \<and> AuthProvider truthy \<lparr>isLocalAuthMode = False, getLocalAuthToken = None,
      NEXT_PUBLIC_CLERK_PUBLISHABLE_KEY = None, NEXT_PUBLIC_CLERK_AFTER_SIGN_OUT_URL = None\<rparr>
      ''app'' = Fragment ''app''
   \<and> truthy (Some (js ''pk_test_a''))
   \<and> AuthProvider truthy \<lparr>isLocalAuthMode = False, getLocalAuthToken = None,
      NEXT_PUBLIC_CLERK_PUBLISHABLE_KEY = Some (js ''pk_test_a''),
      NEXT_PUBLIC_CLERK_AFTER_SIGN_OUT_URL = None\<rparr>
      ''app'' = ClerkProvider (Some (js ''pk_test_a'')) (js ''/'') ''app''"
  using AuthProvider_hosted_mode [of "\<lparr>isLocalAuthMode = False, getLocalAuthToken = None,
      NEXT_PUBLIC_CLERK_PUBLISHABLE_KEY = Some [], NEXT_PUBLIC_CLERK_AFTER_SIGN_OUT_URL = None\<rparr>"
      truthy "''app''"]
    AuthProvider_hosted_mode [of "\<lparr>isLocalAuthMode = False, getLocalAuthToken = None,
      NEXT_PUBLIC_CLERK_PUBLISHABLE_KEY = None, NEXT_PUBLIC_CLERK_AFTER_SIGN_OUT_URL = None\<rparr>"
      truthy "''app''"]
    AuthProvider_hosted_mode [of "\<lparr>isLocalAuthMode = False, getLocalAuthToken = None,
      NEXT_PUBLIC_CLERK_PUBLISHABLE_KEY = Some (js ''pk_test_a''),
      NEXT_PUBLIC_CLERK_AFTER_SIGN_OUT_URL = None\<rparr>"
      truthy "''app''"]
  by (simp add: js_def truthy_def)

text \<open>
  C3. Submitting a token that is non-empty after trimming hands exactly the trimmed
  value to the token store, clears the error and reloads the page once.
\<close>

theorem login_submit_stores_trimmed:
  assumes "trim (token st) \<noteq> []"
  shows "LocalAuthLogin_handleSubmit st =
           (st\<lparr>error := None\<rparr>, [PreventDefault, SetLocalAuthToken (trim (token st)), Reload])"
  using assms by (simp add: LocalAuthLogin_handleSubmit_def)

theorem login_submit_stores_trimmed_witness:
  "trim (token (LocalAuthLogin_init\<lparr>error := Some (js ''e''), token := js '' abc123 ''\<rparr>)) \<noteq> []
   \<and> LocalAuthLogin_handleSubmit (LocalAuthLogin_init\<lparr>error := Some (js ''e''), token := js '' abc123 ''\<rparr>) =
       (LocalAuthLogin_init\<lparr>token := js '' abc123 ''\<rparr>,
        [PreventDefault, SetLocalAuthToken (js ''abc123''), Reload])"
  using login_submit_stores_trimmed
      [of "LocalAuthLogin_init\<lparr>error := Some (js ''e''), token := js '' abc123 ''\<rparr>"]
  by (simp add: LocalAuthLogin_init_def js_def trim_def is_ws_def)

text \<open>
  C4. Submitting a token that is empty or consists of whitespace only sets the
  required message and does nothing else: the token store is not written and the
  page is not reloaded.
\<close>

theorem login_submit_blank_rejected:
  assumes "\<forall>c\<in>set (token st). is_ws c"
  shows "LocalAuthLogin_handleSubmit st =
           (st\<lparr>error := Some (js ''Bearer token is required.'')\<rparr>, [PreventDefault])"
  using assms by (simp add: LocalAuthLogin_handleSubmit_def trim_Nil_iff)

theorem login_submit_blank_rejected_witness:
  "trim (token (LocalAuthLogin_init\<lparr>token := js ''  ''\<rparr>)) = []
   \<and> LocalAuthLogin_handleSubmit (LocalAuthLogin_init\<lparr>token := js ''  ''\<rparr>) =
       (LocalAuthLogin_init\<lparr>token := js ''  '', error := Some (js ''Bearer token is required.'')\<rparr>,
        [PreventDefault])"
  using login_submit_blank_rejected [of "LocalAuthLogin_init\<lparr>token := js ''  ''\<rparr>"]
  by (simp add: LocalAuthLogin_init_def js_def trim_def is_ws_def)

section \<open>The agent pages: properties\<close>

text \<open>
  C5, as stated, fails in two ways. When \<^verbatim>\<open>await getToken()\<close> rejects, the handler goes
  to its \<^verbatim>\<open>catch\<close> branch before it calls \<^verbatim>\<open>fetch\<close>: no POST is issued and the error
  is shown. When the response is OK but \<^verbatim>\<open>response.json()\<close> rejects, the POST has been
  issued but the handler shows the error and does not navigate.
\<close>

theorem submit_post_counterexample:
  "NewAgentPage_handleSubmit
      \<lparr>apiBase = js ''http://api'', isSignedIn = True, getToken = Inl (JsError (js ''offline'')),
       DEFAULT_IDENTITY_TEMPLATE = js ''I'', DEFAULT_SOUL_TEMPLATE = js ''S''\<rparr>
      (always (Resolves True (Inr \<lparr>created_id = js ''a1'', created_name = js ''Deploy bot''\<rparr>)))
      \<lparr>error = None, name = js ''Deploy bot'', boards = [], boardId = js ''b1'',
       heartbeatEvery = js ''10m'', heartbeatTarget = js ''none'', identityTemplate = js ''I'',
       soulTemplate = js ''S'', isLoading = False\<rparr>
    = (\<lparr>error = Some (js ''offline''), name = js ''Deploy bot'', boards = [],
        boardId = js ''b1'', heartbeatEvery = js ''10m'', heartbeatTarget = js ''none'',
        identityTemplate = js ''I'', soulTemplate = js ''S'', isLoading = False\<rparr>,
       [PreventDefault])
   \<and> NewAgentPage_handleSubmit
      \<lparr>apiBase = js ''http://api'', isSignedIn = True, getToken = Inr (Some (js ''tok'')),
       DEFAULT_IDENTITY_TEMPLATE = js ''I'', DEFAULT_SOUL_TEMPLATE = js ''S''\<rparr>
      (always (Resolves True (Inl (JsError (js ''bad json'')))))
      \<lparr>error = None, name = js ''Deploy bot'', boards = [], boardId = js ''b1'',
       heartbeatEvery = js ''10m'', heartbeatTarget = js ''none'', identityTemplate = js ''I'',
       soulTemplate = js ''S'', isLoading = False\<rparr>
    = (\<lparr>error = Some (js ''bad json''), name = js ''Deploy bot'', boards = [],
        boardId = js ''b1'', heartbeatEvery = js ''10m'', heartbeatTarget = js ''none'',
        identityTemplate = js ''I'', soulTemplate = js ''S'', isLoading = False\<rparr>,
       [PreventDefault,
        Fetch \<lparr>url = js ''http://api/api/v1/agents'', http_method = js ''POST'',
               headers = [(js ''Content-Type'', js ''application/json''),
                          (js ''Authorization'', js ''Bearer tok'')],
               body = Some \<lparr>body_name = js ''Deploy bot'', body_board_id = js ''b1'',
                            body_heartbeat_config =
                              \<lparr>body_every = js ''10m'', body_target = js ''none''\<rparr>,
                            body_identity_template = Some (js ''I''),
                            body_soul_template = Some (js ''S'')\<rparr>\<rparr>])"
  by (simp add: NewAgentPage_handleSubmit_def Let_def always_def caught_def submit_body_def
      or_null_def or_str_def Authorization_def js_def trim_def is_ws_def)

text \<open>
  C5, amended. A submission of the create form (the form is rendered, so the user is
  signed in) with a name that is non-empty after trimming and a selected board issues
  exactly one request when the token provider resolves, and none when it rejects (the
  error is shown instead). The request is a POST to the agents endpoint whose body has the
  trimmed name, the selected board and the interval, \<^verbatim>\<open>10m\<close> when the field is blank
  after trimming. When that request is answered with an OK response whose body reads as
  the created agent, the handler navigates to \<^verbatim>\<open>/agents/<id>\<close> of that agent; when the
  body of the OK response cannot be read, it shows the error and does not navigate.
\<close>

theorem NewAgentPage_submit_outcome:
  assumes "form_rendered env" and "trim (name st) \<noteq> []" and "boardId st \<noteq> []"
  shows "(\<forall>err. getToken env = Inl err \<longrightarrow>
            NewAgentPage_handleSubmit env fetch st =
              (st\<lparr>error := Some (caught err), isLoading := False\<rparr>, [PreventDefault]))
       \<and> (\<forall>tok. getToken env = Inr tok \<longrightarrow>
            (\<exists>req b. fetches (snd (NewAgentPage_handleSubmit env fetch st)) = [req]
               \<and> http_method req = js ''POST''
               \<and> url req = apiBase env @ js ''/api/v1/agents''
               \<and> body req = Some b
               \<and> body_name b = trim (name st)
               \<and> body_board_id b = boardId st
               \<and> body_every (body_heartbeat_config b) =
                    (if trim (heartbeatEvery st) = [] then js ''10m''
                     else trim (heartbeatEvery st))
               \<and> (\<forall>created. fetch req = Resolves True (Inr created) \<longrightarrow>
                      snd (NewAgentPage_handleSubmit env fetch st) =
                        [PreventDefault, Fetch req,
                         RouterPush (js ''/agents/'' @ created_id created)])
               \<and> (\<forall>err. fetch req = Resolves True (Inl err) \<longrightarrow>
                      NewAgentPage_handleSubmit env fetch st =
                        (st\<lparr>error := Some (caught err), isLoading := False\<rparr>,
                         [PreventDefault, Fetch req]))))"
  using assms
  by (auto simp: NewAgentPage_handleSubmit_def Let_def form_rendered_def submit_body_def
      or_str_def split: fetch_result.splits sum.splits)

theorem NewAgentPage_submit_outcome_witness:
  "form_rendered example_env \<and> trim (name example_form) \<noteq> [] \<and> boardId example_form \<noteq> []
   \<and> getToken example_env = Inr (Some (js ''tok''))
   \<and> snd (NewAgentPage_handleSubmit example_env
        (always (Resolves True (Inr \<lparr>created_id = js ''a1'', created_name = js ''Deploy bot''\<rparr>)))
        example_form) =
       [PreventDefault,
        Fetch \<lparr>url = js ''http://api/api/v1/agents'', http_method = js ''POST'',
               headers = [(js ''Content-Type'', js ''application/json''),
                          (js ''Authorization'', js ''Bearer tok'')],
               body = Some \<lparr>body_name = js ''Deploy bot'', body_board_id = js ''b1'',
                            body_heartbeat_config =
                              \<lparr>body_every = js ''10m'', body_target = js ''none''\<rparr>,
                            body_identity_template = Some (js ''I''),
                            body_soul_template = None\<rparr>\<rparr>,
        RouterPush (js ''/agents/a1'')]
   \<and> form_rendered (example_env\<lparr>getToken := Inl NonError\<rparr>)
   \<and> NewAgentPage_handleSubmit (example_env\<lparr>getToken := Inl NonError\<rparr>)
        (always (Resolves True (Inr \<lparr>created_id = js ''a1'', created_name = js ''Deploy bot''\<rparr>)))
        example_form =
       (example_form\<lparr>error := Some (js ''Something went wrong.'')\<rparr>, [PreventDefault])"
  using NewAgentPage_submit_outcome [of example_env example_form
      "always (Resolves True (Inr \<lparr>created_id = js ''a1'', created_name = js ''Deploy bot''\<rparr>))"]
    NewAgentPage_submit_outcome [of "example_env\<lparr>getToken := Inl NonError\<rparr>" example_form
      "always (Resolves True (Inr \<lparr>created_id = js ''a1'', created_name = js ''Deploy bot''\<rparr>))"]
  by (simp add: NewAgentPage_handleSubmit_def Let_def always_def form_rendered_def caught_def
      example_env_def example_form_def NewAgentPage_init_def submit_body_def or_null_def
      or_str_def Authorization_def js_def trim_def is_ws_def)

text \<open>
  C6. A submission of the create form or of the edit form with a name that is empty after
  trimming or with no board selected issues no request and changes no state but the
  error; with the form rendered (and, on the edit page, the agent of the route known) the
  error is set to the validation message, which the form shows.
\<close>

theorem submit_validation_errors:
  "(trim (name st) = [] \<or> boardId st = [] \<longrightarrow>
      fetches (snd (NewAgentPage_handleSubmit env fetch st)) = []
    \<and> (\<exists>e. fst (NewAgentPage_handleSubmit env fetch st) = st\<lparr>error := e\<rparr>)
    \<and> (form_rendered env \<longrightarrow>
          NewAgentPage_handleSubmit env fetch st =
            (st\<lparr>error := Some (if trim (name st) = [] then js ''Agent name is required.''
                                else js ''Select a board before creating an agent.'')\<rparr>,
             [PreventDefault])))
   \<and> (trim (name est) = [] \<or> boardId est = [] \<longrightarrow>
      fetches (snd (EditAgentPage_handleSubmit eenv efetch est)) = []
    \<and> (\<exists>e. fst (EditAgentPage_handleSubmit eenv efetch est) = est\<lparr>error := e\<rparr>)
    \<and> (form_rendered eenv \<and> truthy (agentId eenv) \<longrightarrow>
          EditAgentPage_handleSubmit eenv efetch est =
            (est\<lparr>error := Some (if trim (name est) = [] then js ''Agent name is required.''
                                 else js ''Select a board before saving.'')\<rparr>,
             [PreventDefault])))"
proof -
  have same: "\<exists>e. r = r\<lparr>error := e\<rparr>" for r :: "'z view_state_scheme"
    by (rule exI [of _ "error r"]) simp
  have upd: "\<exists>e. r\<lparr>error := x\<rparr> = r\<lparr>error := e\<rparr>" for r :: "'z view_state_scheme" and x
    by (rule exI [of _ x]) simp
  show ?thesis
    by (simp add: NewAgentPage_handleSubmit_def EditAgentPage_handleSubmit_def Let_def
        form_rendered_def same upd)
qed

theorem submit_validation_errors_witness:
  "form_rendered example_env
   \<and> trim (name (example_form\<lparr>name := js '' ''\<rparr>)) = []
   \<and> NewAgentPage_handleSubmit example_env (always (Rejects NonError))
        (example_form\<lparr>name := js '' ''\<rparr>) =
       (example_form\<lparr>name := js '' '', error := Some (js ''Agent name is required.'')\<rparr>,
        [PreventDefault])
   \<and> form_rendered example_edit_env \<and> truthy (agentId example_edit_env)
   \<and> boardId (example_edit_form\<lparr>boardId := []\<rparr>) = []
   \<and> EditAgentPage_handleSubmit example_edit_env (always (Rejects NonError :: unit fetch_result))
        (example_edit_form\<lparr>boardId := []\<rparr>) =
       (example_edit_form\<lparr>boardId := [], error := Some (js ''Select a board before saving.'')\<rparr>,
        [PreventDefault])"
  using submit_validation_errors [where env = example_env
      and st = "example_form\<lparr>name := js '' ''\<rparr>" and fetch = "always (Rejects NonError)"
      and eenv = example_edit_env and est = "example_edit_form\<lparr>boardId := []\<rparr>"
      and efetch = "always (Rejects NonError :: unit fetch_result)"]
  by (simp add: form_rendered_def example_env_def example_form_def NewAgentPage_init_def example_edit_env_def
      example_edit_form_def EditAgentPage_init_def agentId_def truthy_def js_def trim_def is_ws_def)



text \<open>
  C8, as stated, fails when the token provider resolves to \<^verbatim>\<open>null\<close>: the request is sent
  with an empty \<^verbatim>\<open>Authorization\<close> header.
\<close>

theorem bearer_header_counterexample:
  "fetches (snd (NewAgentPage_loadBoards
      \<lparr>apiBase = js ''http://api'', isSignedIn = True, getToken = Inr None,
       DEFAULT_IDENTITY_TEMPLATE = js ''I'', DEFAULT_SOUL_TEMPLATE = js ''S''\<rparr>
      (always (Rejects NonError))
      \<lparr>error = None, name = [], boards = [], boardId = [], heartbeatEvery = js ''10m'',
       heartbeatTarget = js ''none'', identityTemplate = js ''I'', soulTemplate = js ''S'',
       isLoading = False\<rparr>))
   = [\<lparr>url = js ''http://api/api/v1/boards'', http_method = js ''GET'',
       headers = [(js ''Authorization'', js '''')], body = None\<rparr>]"
  by (simp add: NewAgentPage_loadBoards_def Let_def always_def Authorization_def js_def)

text \<open>
  C8, amended. Every request of the two pages is issued after the token provider has
  resolved and carries an \<^verbatim>\<open>Authorization\<close> header: \<^verbatim>\<open>Bearer <token>\<close> when the
  provider gives a non-empty token, the empty string when it gives \<^verbatim>\<open>null\<close> or the
  empty string.
\<close>

theorem requests_carry_authorization:
  "(\<forall>req\<in>set (fetches (snd (NewAgentPage_loadBoards env fetch1 st)))
          \<union> set (fetches (snd (NewAgentPage_handleSubmit env fetch2 st))).
      \<exists>tok. getToken env = Inr tok \<and>
        map_of (headers req) (js ''Authorization'') =
          Some (case tok of
                  None \<Rightarrow> js ''''
                | Some t \<Rightarrow> if t = [] then js '''' else js ''Bearer '' @ t))
   \<and> (\<forall>req\<in>set (fetches (snd (EditAgentPage_loadBoards eenv fetch3 est)))
          \<union> set (fetches (snd (EditAgentPage_loadAgent eenv fetch4 est)))
          \<union> set (fetches (snd (EditAgentPage_handleSubmit eenv fetch5 est))).
      \<exists>tok. getToken eenv = Inr tok \<and>
        map_of (headers req) (js ''Authorization'') =
          Some (case tok of
                  None \<Rightarrow> js ''''
                | Some t \<Rightarrow> if t = [] then js '''' else js ''Bearer '' @ t))"
proof -
  have auth: "Authorization tok =
      (case tok of None \<Rightarrow> js '''' | Some t \<Rightarrow> if t = [] then js '''' else js ''Bearer '' @ t)"
    for tok
    by (simp add: Authorization_def js_def split: option.splits)
  have ne: "js ''Authorization'' \<noteq> js ''Content-Type''"
    by (simp add: js_def)
  show ?thesis
    by (auto dest!: NewAgentPage_loadBoards_fetches NewAgentPage_handleSubmit_fetches
        EditAgentPage_loadBoards_fetches EditAgentPage_loadAgent_fetches
        EditAgentPage_handleSubmit_fetches simp: auth ne simp del: map_of_eq_Some_iff)
qed

theorem requests_carry_authorization_witness:
  "map (\<lambda>req. map_of (headers req) (js ''Authorization''))
     (fetches (snd (NewAgentPage_handleSubmit example_env (always (Rejects NonError))
                      example_form)))
     = [Some (js ''Bearer tok'')]
   \<and> map (\<lambda>req. map_of (headers req) (js ''Authorization''))
     (fetches (snd (EditAgentPage_loadAgent example_edit_env (always (Rejects NonError))
                      example_edit_form)))
     = [Some (js ''Bearer tok'')]"
  using requests_carry_authorization [where env = example_env and st = example_form
      and ?fetch1.0 = "always (Rejects NonError)" and ?fetch2.0 = "always (Rejects NonError)"
      and eenv = example_edit_env and est = example_edit_form
      and ?fetch3.0 = "always (Rejects NonError)" and ?fetch4.0 = "always (Rejects NonError)"
      and ?fetch5.0 = "always (Rejects NonError :: unit fetch_result)"]
  by (simp add: NewAgentPage_handleSubmit_def EditAgentPage_loadAgent_def Let_def always_def
      example_env_def example_form_def NewAgentPage_init_def example_edit_env_def example_edit_form_def EditAgentPage_init_def agentId_def
      truthy_def js_def trim_def is_ws_def)

text \<open>
  C9. While the user is not signed in, the handlers that load the boards, load the agent
  and submit the form issue no request and leave the component state as it is.
\<close>

theorem signed_out_handlers_do_nothing:
  assumes "\<not> isSignedIn env" and "\<not> isSignedIn eenv"
  shows "NewAgentPage_loadBoards env fetch1 st = (st, [])
       \<and> NewAgentPage_handleSubmit env fetch2 st = (st, [PreventDefault])
       \<and> EditAgentPage_loadBoards eenv fetch3 est = (est, [])
       \<and> EditAgentPage_loadAgent eenv fetch4 est = (est, [])
       \<and> EditAgentPage_handleSubmit eenv fetch5 est = (est, [PreventDefault])"
  using assms
  by (simp add: NewAgentPage_loadBoards_def NewAgentPage_handleSubmit_def
      EditAgentPage_loadBoards_def EditAgentPage_loadAgent_def EditAgentPage_handleSubmit_def)

theorem signed_out_handlers_do_nothing_witness:
  "\<not> isSignedIn (example_env\<lparr>isSignedIn := False\<rparr>)
   \<and> \<not> isSignedIn (example_edit_env\<lparr>isSignedIn := False\<rparr>)
   \<and> NewAgentPage_loadBoards (example_env\<lparr>isSignedIn := False\<rparr>)
        (always (Resolves True (Inr []))) example_form = (example_form, [])
   \<and> NewAgentPage_handleSubmit (example_env\<lparr>isSignedIn := False\<rparr>)
        (always (Rejects NonError)) example_form = (example_form, [PreventDefault])
   \<and> EditAgentPage_loadBoards (example_edit_env\<lparr>isSignedIn := False\<rparr>)
        (always (Resolves True (Inr []))) example_edit_form = (example_edit_form, [])
   \<and> EditAgentPage_loadAgent (example_edit_env\<lparr>isSignedIn := False\<rparr>)
        (always (Resolves True (Inr example_agent))) example_edit_form = (example_edit_form, [])
   \<and> EditAgentPage_handleSubmit (example_edit_env\<lparr>isSignedIn := False\<rparr>)
        (always (Rejects NonError :: unit fetch_result)) example_edit_form
       = (example_edit_form, [PreventDefault])"
  using signed_out_handlers_do_nothing [where env = "example_env\<lparr>isSignedIn := False\<rparr>"
      and eenv = "example_edit_env\<lparr>isSignedIn := False\<rparr>"
      and st = example_form and est = example_edit_form
      and ?fetch1.0 = "always (Resolves True (Inr []))"
      and ?fetch2.0 = "always (Rejects NonError)"
      and ?fetch3.0 = "always (Resolves True (Inr []))"
      and ?fetch4.0 = "always (Resolves True (Inr example_agent))"
      and ?fetch5.0 = "always (Rejects NonError :: unit fetch_result)"]
  by simp

text \<open>
  C10. Every request a create or edit submission issues has a body whose identity and
  soul templates are never the empty string: each is the trimmed field when that is
  non-empty, and \<^verbatim>\<open>null\<close> otherwise.
\<close>

theorem submit_templates_never_empty:
  "(\<forall>req\<in>set (fetches (snd (NewAgentPage_handleSubmit env fetch st))).
      \<exists>b. body req = Some b
        \<and> body_identity_template b \<noteq> Some [] \<and> body_soul_template b \<noteq> Some []
        \<and> body_identity_template b =
            (if trim (identityTemplate st) = [] then None else Some (trim (identityTemplate st)))
        \<and> body_soul_template b =
            (if trim (soulTemplate st) = [] then None else Some (trim (soulTemplate st))))
   \<and> (\<forall>req\<in>set (fetches (snd (EditAgentPage_handleSubmit eenv efetch est))).
      \<exists>b. body req = Some b
        \<and> body_identity_template b \<noteq> Some [] \<and> body_soul_template b \<noteq> Some []
        \<and> body_identity_template b =
            (if trim (identityTemplate est) = [] then None else Some (trim (identityTemplate est)))
        \<and> body_soul_template b =
            (if trim (soulTemplate est) = [] then None else Some (trim (soulTemplate est))))"
  by (auto dest!: NewAgentPage_handleSubmit_fetches EditAgentPage_handleSubmit_fetches
      simp: submit_body_def or_null_def)

theorem submit_templates_never_empty_witness:
  "map (\<lambda>req. map_option body_identity_template (body req))
     (fetches (snd (NewAgentPage_handleSubmit example_env (always (Rejects NonError))
                      example_form)))
     = [Some (Some (js ''I''))]
   \<and> map (\<lambda>req. map_option body_soul_template (body req))
     (fetches (snd (NewAgentPage_handleSubmit example_env (always (Rejects NonError))
                      example_form)))
     = [Some None]
   \<and> map (\<lambda>req. map_option body_identity_template (body req))
     (fetches (snd (EditAgentPage_handleSubmit example_edit_env
                      (always (Rejects NonError :: unit fetch_result)) example_edit_form)))
     = [Some None]
   \<and> map (\<lambda>req. map_option body_soul_template (body req))
     (fetches (snd (EditAgentPage_handleSubmit example_edit_env
                      (always (Rejects NonError :: unit fetch_result)) example_edit_form)))
     = [Some (Some (js ''S''))]"
  using submit_templates_never_empty [where env = example_env and st = example_form
      and fetch = "always (Rejects NonError)"
      and eenv = example_edit_env and est = example_edit_form
      and efetch = "always (Rejects NonError :: unit fetch_result)"]
  by (simp add: NewAgentPage_handleSubmit_def EditAgentPage_handleSubmit_def Let_def always_def
      example_env_def example_form_def NewAgentPage_init_def example_edit_env_def example_edit_form_def EditAgentPage_init_def agentId_def
      truthy_def submit_body_def or_null_def or_str_def js_def trim_def is_ws_def)

end
